theory Spec2Isabelle
  imports Main
begin

section \<open>The chat front-end of app.py\<close>

text \<open>
  The script app.py is run from top to bottom on every page render. What survives from
  one run to the next is the session-state store and the state of the hosted assistant
  service; the page itself is rebuilt by each run. The embedding passes these three
  explicitly: the store as a record of slots, the page as the list of elements written
  so far, and the service as an abstract world that the client's calls read and change.
  A Python exception is the \<open>Inl\<close> branch of the result; the state returned with it is
  the state at the moment of the raise, since Python does not undo earlier writes.
\<close>

subsection \<open>Errors, messages and the session-state store\<close>

datatype error =
    AttributeError string  \<comment> \<open>attribute read of a slot that the store does not hold\<close>
  | ExternalError string   \<comment> \<open>anything raised by a library or by the hosted service\<close>

text \<open>A message is the dictionary \<open>{"role": r, "content": c}\<close>.\<close>

record message =
  role :: string
  content :: string

text \<open>
  The store is a dictionary; the script uses the keys \<open>start_chat\<close>, \<open>thread_id\<close> and
  \<open>messages\<close>. A slot is \<open>None\<close> when the key is absent. The value of \<open>thread_id\<close> is
  itself Python's \<open>None\<close> or a thread identifier, hence the nested option.
\<close>

record session_state =
  start_chat :: "bool option"
  thread_id :: "string option option"
  messages :: "message list option"

definition empty_session :: session_state where
  "empty_session = \<lparr>start_chat = None, thread_id = None, messages = None\<rparr>"

subsection \<open>Configuration\<close>

text \<open>
  The class body of \<open>Config\<close> reads twelve environment variables with \<open>os.getenv\<close>, which
  returns \<open>None\<close> for a variable that is not set. The environment (after \<open>load_dotenv\<close>)
  is a map from names to values.
\<close>

record Config =
  API_KEY :: "string option"
  ASSISTANT_KEY :: "string option"
  PAGE_TITLE :: "string option"
  WELCOME_MESSAGE :: "string option"
  INSTRUCTIONS :: "string option"
  USER_PROMPT :: "string option"
  BEGIN_MESSAGE :: "string option"
  EXIT_MESSAGE :: "string option"
  START_CHAT_BUTTON :: "string option"
  OPENAI_MODEL :: "string option"
  DISCLAIMER :: "string option"
  LOGO :: "string option"

definition Config_class :: "(string \<rightharpoonup> string) \<Rightarrow> Config" where
  "Config_class getenv =
     \<lparr>API_KEY = getenv ''API_KEY'',
      ASSISTANT_KEY = getenv ''ASSISTANT_KEY'',
      PAGE_TITLE = getenv ''PAGE_TITLE'',
      WELCOME_MESSAGE = getenv ''WELCOME_MESSAGE'',
      INSTRUCTIONS = getenv ''INSTRUCTIONS'',
      USER_PROMPT = getenv ''USER_PROMPT'',
      BEGIN_MESSAGE = getenv ''BEGIN_MESSAGE'',
      EXIT_MESSAGE = getenv ''EXIT_MESSAGE'',
      START_CHAT_BUTTON = getenv ''START_CHAT_BUTTON'',
      OPENAI_MODEL = getenv ''OPENAI_MODEL'',
      DISCLAIMER = getenv ''DISCLAIMER'',
      LOGO = getenv ''LOGO''\<rparr>"

subsection \<open>The page and the hosted service\<close>

text \<open>
  The elements a run writes to the page, in order. The fixed decoration (style sheet,
  heading, sidebar title, the two authentication banners) carries no payload; the
  elements whose text comes from the configuration or from the chat carry it.
\<close>

datatype ui_element =
    PageConfig "string option"   \<comment> \<open>\<open>st.set_page_config(page_title=...)\<close>\<close>
  | CustomCss
  | SidebarImage "string option"
  | Heading
  | ChatMessage string string    \<comment> \<open>role and markdown body\<close>
  | ChatInput "string option"    \<comment> \<open>the input box with its prompt\<close>
  | Write "string option"
  | ErrorBanner string
  | WarningBanner
  | SidebarTitle
  | LogoutButton

text \<open>
  The client of the assistant service. Every call may raise, and may change the service;
  \<open>'w\<close> is the state of the service. A thread and an assistant are used only through
  their \<open>id\<close>. The run stream delivers text deltas and may end with an error
  (raised while the deltas are written or by \<open>until_done\<close>).
\<close>

record 'w client =
  assistants_retrieve :: "string option \<Rightarrow> 'w \<Rightarrow> (error + string) \<times> 'w"
  threads_create :: "'w \<Rightarrow> (error + string) \<times> 'w"
  messages_create :: "string \<Rightarrow> string \<Rightarrow> string \<Rightarrow> 'w \<Rightarrow> (error + unit) \<times> 'w"
  create_and_stream ::
    "string \<Rightarrow> string \<Rightarrow> string option \<Rightarrow> string option \<Rightarrow> 'w
       \<Rightarrow> (error + string list \<times> error option) \<times> 'w"

record 'w state =
  session :: session_state
  ui :: "ui_element list"
  world :: 'w

definition render :: "ui_element \<Rightarrow> 'w state \<Rightarrow> 'w state" where
  "render x st = st\<lparr>ui := ui st @ [x]\<rparr>"

subsection \<open>Session-state operations\<close>

text \<open>\<open>setdefault\<close> writes a slot only when the key is absent.\<close>

definition initialize_chat_variables :: "session_state \<Rightarrow> session_state" where
  "initialize_chat_variables s =
     s\<lparr>start_chat := (case start_chat s of None \<Rightarrow> Some False | Some b \<Rightarrow> Some b),
       thread_id := (case thread_id s of None \<Rightarrow> Some None | Some t \<Rightarrow> Some t),
       messages := (case messages s of None \<Rightarrow> Some [] | Some ms \<Rightarrow> Some ms)\<rparr>"

definition reset_chat_session :: "session_state \<Rightarrow> session_state" where
  "reset_chat_session s =
     s\<lparr>messages := Some [], start_chat := Some False, thread_id := Some None\<rparr>"

text \<open>
  \<open>start_new_chat_session\<close> sets \<open>start_chat\<close> before it asks the service for a thread, so
  that write stays when the call raises; the other three writes follow the call.
\<close>

definition start_new_chat_session :: "'w client \<Rightarrow> 'w state \<Rightarrow> (error + unit) \<times> 'w state" where
  "start_new_chat_session c st =
     (let st1 = st\<lparr>session := (session st)\<lparr>start_chat := Some True\<rparr>\<rparr> in
      (case threads_create c (world st1) of
         (Inl e, w) \<Rightarrow> (Inl e, st1\<lparr>world := w\<rparr>)
       | (Inr thread, w) \<Rightarrow>
           (Inr (),
            st1\<lparr>world := w,
                session := (session st1)\<lparr>thread_id := Some (Some thread),
                                         messages := Some [],
                                         start_chat := Some True\<rparr>\<rparr>)))"

fun display_chat_messages_loop :: "message list \<Rightarrow> 'w state \<Rightarrow> 'w state" where
  "display_chat_messages_loop [] st = st"
| "display_chat_messages_loop (m # ms) st =
     display_chat_messages_loop ms (render (ChatMessage (role m) (content m)) st)"

definition display_chat_messages :: "'w state \<Rightarrow> (error + unit) \<times> 'w state" where
  "display_chat_messages st =
     (case messages (session st) of
        None \<Rightarrow> (Inl (AttributeError ''messages''), st)
      | Some ms \<Rightarrow> (Inr (), display_chat_messages_loop ms st))"

definition user_message :: "string \<Rightarrow> message" where
  "user_message user_input = \<lparr>role = ''user'', content = user_input\<rparr>"

definition assistant_message :: "string \<Rightarrow> message" where
  "assistant_message response = \<lparr>role = ''assistant'', content = response\<rparr>"

text \<open>
  The submission handler. The user message is appended before the thread identifier is
  looked at. \<open>st.write_stream\<close> writes the deltas and returns their concatenation.
\<close>

definition process_and_display_chat_interaction ::
  "string \<Rightarrow> 'w client \<Rightarrow> string \<Rightarrow> Config \<Rightarrow> 'w state \<Rightarrow> (error + unit) \<times> 'w state" where
  "process_and_display_chat_interaction user_input c assistant cfg st =
     (case messages (session st) of
        None \<Rightarrow> (Inl (AttributeError ''messages''), st)
      | Some ms \<Rightarrow>
         (let st1 = render (ChatMessage ''user'' user_input)
                      (st\<lparr>session := (session st)\<lparr>messages := Some (ms @ [user_message user_input])\<rparr>\<rparr>)
          in
          (case thread_id (session st1) of
             None \<Rightarrow> (Inl (AttributeError ''thread_id''), st1)
           | Some None \<Rightarrow>
               start_new_chat_session c
                 (render (ErrorBanner ''Thread ID is None. Starting a new chat session.'') st1)
           | Some (Some t) \<Rightarrow>
              (case messages_create c t ''user'' user_input (world st1) of
                 (Inl e, w1) \<Rightarrow> (Inl e, st1\<lparr>world := w1\<rparr>)
               | (Inr u, w1) \<Rightarrow>
                  (case create_and_stream c t assistant (OPENAI_MODEL cfg) (INSTRUCTIONS cfg) w1 of
                     (Inl e, w2) \<Rightarrow> (Inl e, st1\<lparr>world := w2\<rparr>)
                   | (Inr (text_deltas, done), w2) \<Rightarrow>
                      (let response = concat text_deltas;
                           st2 = render (ChatMessage ''assistant'' response) (st1\<lparr>world := w2\<rparr>)
                       in
                       (case done of
                          Some e \<Rightarrow> (Inl e, st2)
                        | None \<Rightarrow>
                           (Inr (),
                            st2\<lparr>session := (session st2)
                                  \<lparr>messages := Some (ms @ [user_message user_input,
                                                           assistant_message response])\<rparr>\<rparr>))))))))"

text \<open>
  \<open>handle_chat_interaction\<close> receives what \<open>st.chat_input\<close> returns in this run: \<open>None\<close>
  when nothing was submitted, the submitted text otherwise. An empty text is falsy.
\<close>

definition handle_chat_interaction ::
  "'w client \<Rightarrow> string \<Rightarrow> Config \<Rightarrow> string option \<Rightarrow> 'w state \<Rightarrow> (error + unit) \<times> 'w state" where
  "handle_chat_interaction c assistant cfg chat_input st =
     (if start_chat (session st) = Some True then
        (case display_chat_messages st of
           (Inl e, st1) \<Rightarrow> (Inl e, st1)
         | (Inr u, st1) \<Rightarrow>
            (let st2 = render (ChatInput (USER_PROMPT cfg)) st1 in
             (case chat_input of
                None \<Rightarrow> (Inr (), st2)
              | Some user_input \<Rightarrow>
                  if user_input \<noteq> [] then
                    process_and_display_chat_interaction user_input c assistant cfg st2
                  else (Inr (), st2))))
      else (Inr (), render (Write (BEGIN_MESSAGE cfg)) st))"

subsection \<open>The script\<close>

text \<open>
  What a run takes from outside the repository: the constructor of the service client,
  the file test on the logo path, the outcome of the authentication widget (which stands
  for lines 146 to 171: the credential file, the authenticator and its \<open>login\<close>), and the
  chat input. The authentication widget keeps its own keys in the store and does not
  touch the three slots of the chat.
\<close>

record 'w environment =
  OpenAI :: "string option \<Rightarrow> error + 'w client"
  os_path_isfile :: "string option \<Rightarrow> error + bool"
  authenticator_login :: "error + bool option"
  st_chat_input :: "string option"

definition initialize_openai_client ::
  "'w environment \<Rightarrow> Config \<Rightarrow> 'w \<Rightarrow> (error + 'w client \<times> string) \<times> 'w" where
  "initialize_openai_client env cfg w =
     (case OpenAI env (API_KEY cfg) of
        Inl e \<Rightarrow> (Inl e, w)
      | Inr c \<Rightarrow>
         (case assistants_retrieve c (ASSISTANT_KEY cfg) w of
            (Inl e, w1) \<Rightarrow> (Inl e, w1)
          | (Inr assistant, w1) \<Rightarrow> (Inr (c, assistant), w1)))"

definition apply_custom_css :: "'w state \<Rightarrow> 'w state" where
  "apply_custom_css st = render CustomCss st"

definition setup_streamlit_ui ::
  "'w environment \<Rightarrow> Config \<Rightarrow> 'w state \<Rightarrow> (error + unit) \<times> 'w state" where
  "setup_streamlit_ui env cfg st =
     (let st1 = apply_custom_css (render (PageConfig (PAGE_TITLE cfg)) st) in
      (case os_path_isfile env (LOGO cfg) of
         Inl e \<Rightarrow> (Inl e, st1)
       | Inr is_file \<Rightarrow>
           (Inr (), render Heading (if is_file then render (SidebarImage (LOGO cfg)) st1 else st1))))"

definition main :: "'w environment \<Rightarrow> Config \<Rightarrow> 'w state \<Rightarrow> (error + unit) \<times> 'w state" where
  "main env cfg st =
     (case initialize_openai_client env cfg (world st) of
        (Inl e, w) \<Rightarrow> (Inl e, st\<lparr>world := w\<rparr>)
      | (Inr (c, assistant), w) \<Rightarrow>
         (case setup_streamlit_ui env cfg (st\<lparr>world := w\<rparr>) of
            (Inl e, st1) \<Rightarrow> (Inl e, st1)
          | (Inr u, st1) \<Rightarrow>
             (case authenticator_login env of
                Inl e \<Rightarrow> (Inl e, st1)
              | Inr authentication_status \<Rightarrow>
                 (let st2 = (if authentication_status = Some False
                             then render (ErrorBanner ''Username/password is incorrect'') st1
                             else st1);
                      st3 = (if authentication_status = None then render WarningBanner st2 else st2)
                  in
                  if authentication_status = Some True then
                    (let st4 = render LogoutButton (render SidebarTitle st3);
                         st5 = st4\<lparr>session := initialize_chat_variables (session st4)\<rparr>
                     in
                     (case start_new_chat_session c st5 of
                        (Inl e, st6) \<Rightarrow> (Inl e, st6)
                      | (Inr u, st6) \<Rightarrow>
                          handle_chat_interaction c assistant cfg (st_chat_input env) st6))
                  else (Inr (), st3)))))"

subsection \<open>Reachable states\<close>

text \<open>
  A browser session starts with an empty store. Each render runs the script on the store
  the previous run left (also when that run was ended by an exception) and on a page that
  is built anew; the service may have moved on in between.
\<close>

inductive reachable :: "'w state \<Rightarrow> bool" where
  first_load: "session st = empty_session \<Longrightarrow> reachable st"
| rerun: "reachable st \<Longrightarrow> reachable (snd (main env cfg (st\<lparr>ui := [], world := w\<rparr>)))"

text \<open>
  The states that the operations on the store produce when they are applied in any order,
  which covers the order the script applies them in. Between two operations the page and
  the service may change.
\<close>

inductive reachable_ops :: "'w state \<Rightarrow> bool" where
  ops_empty: "session st = empty_session \<Longrightarrow> reachable_ops st"
| ops_initialize:
    "reachable_ops st \<Longrightarrow> reachable_ops (st\<lparr>session := initialize_chat_variables (session st)\<rparr>)"
| ops_reset:
    "reachable_ops st \<Longrightarrow> reachable_ops (st\<lparr>session := reset_chat_session (session st)\<rparr>)"
| ops_start:
    "reachable_ops st \<Longrightarrow> reachable_ops (snd (start_new_chat_session c st))"
| ops_submit:
    "reachable_ops st \<Longrightarrow>
       reachable_ops (snd (process_and_display_chat_interaction user_input c assistant cfg st))"
| ops_handle:
    "reachable_ops st \<Longrightarrow>
       reachable_ops (snd (handle_chat_interaction c assistant cfg chat_input st))"
| ops_main:
    "reachable_ops st \<Longrightarrow> reachable_ops (snd (main env cfg st))"
| ops_between:
    "reachable_ops st \<Longrightarrow> reachable_ops (st\<lparr>ui := page, world := w\<rparr>)"

subsection \<open>A concrete service for evaluation\<close>

text \<open>
  A service whose state counts the threads created so far and names each new thread after
  the count; posting succeeds and every run streams the same two deltas.
\<close>

definition demo_client :: "nat client" where
  "demo_client =
     \<lparr>assistants_retrieve = (\<lambda>k w. (Inr ''asst'', w)),
      threads_create = (\<lambda>w. (Inr (''thread'' @ replicate w (CHR ''+'')), Suc w)),
      messages_create = (\<lambda>t r x w. (Inr (), w)),
      create_and_stream = (\<lambda>t a m i w. (Inr ([''Hello'', '' there''], None), w))\<rparr>"

definition demo_environment :: "string option \<Rightarrow> nat environment" where
  "demo_environment chat_input =
     \<lparr>OpenAI = (\<lambda>k. Inr demo_client),
      os_path_isfile = (\<lambda>p. Inr False),
      authenticator_login = Inr (Some True),
      st_chat_input = chat_input\<rparr>"

definition demo_state :: "session_state \<Rightarrow> nat state" where
  "demo_state s = \<lparr>session = s, ui = [], world = 0\<rparr>"

text \<open>The same service with a message endpoint that is down.\<close>

definition failing_client :: "nat client" where
  "failing_client =
     demo_client\<lparr>messages_create := (\<lambda>t r x w. (Inl (ExternalError ''service unavailable''), w))\<rparr>"

definition failing_environment :: "string option \<Rightarrow> nat environment" where
  "failing_environment chat_input = (demo_environment chat_input)\<lparr>OpenAI := (\<lambda>k. Inr failing_client)\<rparr>"

text \<open>An environment file that sets the two service keys and the logo path, and nothing else.\<close>

definition demo_getenv :: "string \<rightharpoonup> string" where
  "demo_getenv = [''API_KEY'' \<mapsto> ''key'', ''ASSISTANT_KEY'' \<mapsto> ''asst'', ''LOGO'' \<mapsto> ''logo.png'']"

subsection \<open>Invariants of the store\<close>

text \<open>A non-empty message log comes with a thread identifier.\<close>

definition log_has_thread :: "session_state \<Rightarrow> bool" where
  "log_has_thread s \<longleftrightarrow>
     (\<forall>ms. messages s = Some ms \<longrightarrow> ms \<noteq> [] \<longrightarrow> (\<exists>t. thread_id s = Some (Some t)))"

text \<open>
  Only \<open>start_new_chat_session\<close> stores a thread identifier, and it marks the chat as started
  first: a store whose chat is not started holds no thread.
\<close>

definition idle_inv :: "session_state \<Rightarrow> bool" where
  "idle_inv s \<longleftrightarrow>
     start_chat s = Some True \<or> thread_id s = Some None \<or>
     (start_chat s = None \<and> thread_id s = None)"

text \<open>The invariant of the initial and the reset store.\<close>

definition initial_reset_invariant :: "session_state \<Rightarrow> bool" where
  "initial_reset_invariant s \<longleftrightarrow>
     (start_chat s = Some False \<and> messages s = Some [] \<longrightarrow> thread_id s = Some None)"

section \<open>Properties\<close>

subsection \<open>Starting a new chat session\<close>

text \<open>
  C10. For every prior state, when \<open>start_new_chat_session\<close> returns normally the service
  has handed out a thread, and the store holds exactly: \<open>start_chat\<close> true, \<open>thread_id\<close> the
  identifier of that fresh thread (so not \<open>None\<close>), and an empty \<open>messages\<close> list.
\<close>

theorem start_new_chat_session_postcondition:
  assumes "fst (start_new_chat_session c st) = Inr ()"
  shows "\<exists>thread. fst (threads_create c (world st)) = Inr thread \<and>
           session (snd (start_new_chat_session c st)) =
             \<lparr>start_chat = Some True, thread_id = Some (Some thread), messages = Some []\<rparr>"
  using assms
  by (auto simp: start_new_chat_session_def Let_def split: prod.splits sum.splits)

theorem start_new_chat_session_postcondition_witness:
  "fst (start_new_chat_session demo_client (demo_state empty_session)) = Inr () \<and>
   (\<exists>thread. fst (threads_create demo_client (world (demo_state empty_session))) = Inr thread \<and>
      session (snd (start_new_chat_session demo_client (demo_state empty_session))) =
        \<lparr>start_chat = Some True, thread_id = Some (Some thread), messages = Some []\<rparr>)"
proof -
  have ret: "fst (start_new_chat_session demo_client (demo_state empty_session)) = Inr ()"
    by (simp add: start_new_chat_session_def demo_client_def demo_state_def)
  from ret start_new_chat_session_postcondition [OF ret] show ?thesis by blast
qed

text \<open>
  C6. Starting a new chat session clears the message log: whatever the store held before
  (for instance two messages), once \<open>start_new_chat_session\<close> has returned the \<open>messages\<close>
  list is empty.
\<close>

theorem start_new_chat_session_clears_messages:
  assumes "fst (start_new_chat_session c st) = Inr ()"
  shows "messages (session (snd (start_new_chat_session c st))) = Some []"
  using assms
  by (auto simp: start_new_chat_session_def Let_def split: prod.splits sum.splits)

theorem start_new_chat_session_clears_messages_witness:
  "fst (start_new_chat_session demo_client
          (demo_state \<lparr>start_chat = Some True, thread_id = Some (Some ''old''),
                       messages = Some [user_message ''m1'', assistant_message ''m2'']\<rparr>)) = Inr () \<and>
   messages (session (snd (start_new_chat_session demo_client
          (demo_state \<lparr>start_chat = Some True, thread_id = Some (Some ''old''),
                       messages = Some [user_message ''m1'', assistant_message ''m2'']\<rparr>)))) = Some []"
proof -
  let ?st = "demo_state \<lparr>start_chat = Some True, thread_id = Some (Some ''old''),
                         messages = Some [user_message ''m1'', assistant_message ''m2'']\<rparr>"
  have ret: "fst (start_new_chat_session demo_client ?st) = Inr ()"
    by (simp add: start_new_chat_session_def demo_client_def demo_state_def)
  from ret start_new_chat_session_clears_messages [OF ret] show ?thesis by blast
qed

subsection \<open>The submission handler\<close>

text \<open>
  C5. A submission on a store that holds a thread, with the post and the streamed run both
  succeeding (the stream ending without error): the handler returns normally, the log is
  the log as it was followed by one user message whose content is exactly the input and
  then one assistant message holding the whole streamed text, and nothing else in the
  store has changed; in particular \<open>thread_id\<close> has the value it had. This holds for every
  input, so for every non-empty one.
\<close>

theorem submission_appends_user_then_assistant:
  assumes "messages (session st) = Some ms"
    and "thread_id (session st) = Some (Some t)"
    and "messages_create c t ''user'' user_input (world st) = (Inr (), w1)"
    and "create_and_stream c t assistant (OPENAI_MODEL cfg) (INSTRUCTIONS cfg) w1 =
           (Inr (text_deltas, None), w2)"
  shows "fst (process_and_display_chat_interaction user_input c assistant cfg st) = Inr () \<and>
         messages (session (snd (process_and_display_chat_interaction user_input c assistant cfg st))) =
           Some (ms @ [\<lparr>role = ''user'', content = user_input\<rparr>,
                       \<lparr>role = ''assistant'', content = concat text_deltas\<rparr>]) \<and>
         thread_id (session (snd (process_and_display_chat_interaction user_input c assistant cfg st))) =
           Some (Some t) \<and>
         start_chat (session (snd (process_and_display_chat_interaction user_input c assistant cfg st))) =
           start_chat (session st)"
  using assms
  by (simp add: process_and_display_chat_interaction_def Let_def render_def
        user_message_def assistant_message_def)

theorem submission_appends_user_then_assistant_witness:
  "messages (session (demo_state \<lparr>start_chat = Some True, thread_id = Some (Some ''thread''),
                                  messages = Some []\<rparr>)) = Some [] \<and>
   messages_create demo_client ''thread'' ''user'' ''Hello'' 0 = (Inr (), 0) \<and>
   create_and_stream demo_client ''thread'' ''asst'' None None 0 =
     (Inr ([''Hello'', '' there''], None), 0) \<and>
   fst (process_and_display_chat_interaction ''Hello'' demo_client ''asst'' (Config_class Map.empty)
          (demo_state \<lparr>start_chat = Some True, thread_id = Some (Some ''thread''),
                       messages = Some []\<rparr>)) = Inr () \<and>
   messages (session (snd (process_and_display_chat_interaction ''Hello'' demo_client ''asst''
          (Config_class Map.empty)
          (demo_state \<lparr>start_chat = Some True, thread_id = Some (Some ''thread''),
                       messages = Some []\<rparr>)))) =
     Some [\<lparr>role = ''user'', content = ''Hello''\<rparr>,
           \<lparr>role = ''assistant'', content = ''Hello there''\<rparr>] \<and>
   thread_id (session (snd (process_and_display_chat_interaction ''Hello'' demo_client ''asst''
          (Config_class Map.empty)
          (demo_state \<lparr>start_chat = Some True, thread_id = Some (Some ''thread''),
                       messages = Some []\<rparr>)))) = Some (Some ''thread'')"
proof -
  let ?st = "demo_state \<lparr>start_chat = Some True, thread_id = Some (Some ''thread''),
                         messages = Some []\<rparr>"
  let ?cfg = "Config_class Map.empty"
  have a: "messages (session ?st) = Some []"
    and b: "thread_id (session ?st) = Some (Some ''thread'')"
    by (simp_all add: demo_state_def)
  have p: "messages_create demo_client ''thread'' ''user'' ''Hello'' (world ?st) = (Inr (), 0)"
    by (simp add: demo_client_def demo_state_def)
  have r: "create_and_stream demo_client ''thread'' ''asst'' (OPENAI_MODEL ?cfg) (INSTRUCTIONS ?cfg) 0 =
             (Inr ([''Hello'', '' there''], None), 0)"
    by (simp add: demo_client_def)
  have w: "world ?st = 0" and m: "OPENAI_MODEL ?cfg = None" and i: "INSTRUCTIONS ?cfg = None"
    by (simp_all add: demo_state_def Config_class_def)
  from submission_appends_user_then_assistant [OF a b p r] a p r w m i
  show ?thesis by simp
qed

text \<open>
  C7. A submission on a store that holds a thread, where the post of the message raises, or
  the post succeeds and the streamed run raises (when it is created, or while it is
  read): the handler does not catch the error, which leaves it as the outcome of the turn,
  and the store is the store as it was with the user message appended to the log. No
  assistant message is appended, and \<open>thread_id\<close> and \<open>start_chat\<close> are untouched.
\<close>

theorem failed_assistant_call_keeps_user_message:
  assumes "messages (session st) = Some ms"
    and "thread_id (session st) = Some (Some t)"
    and "fst (messages_create c t ''user'' user_input (world st)) = Inl e \<or>
         (\<exists>w1. messages_create c t ''user'' user_input (world st) = (Inr (), w1) \<and>
            (fst (create_and_stream c t assistant (OPENAI_MODEL cfg) (INSTRUCTIONS cfg) w1) = Inl e \<or>
             (\<exists>text_deltas.
                fst (create_and_stream c t assistant (OPENAI_MODEL cfg) (INSTRUCTIONS cfg) w1) =
                  Inr (text_deltas, Some e))))"
  shows "fst (process_and_display_chat_interaction user_input c assistant cfg st) = Inl e \<and>
         session (snd (process_and_display_chat_interaction user_input c assistant cfg st)) =
           (session st)\<lparr>messages := Some (ms @ [\<lparr>role = ''user'', content = user_input\<rparr>])\<rparr>"
  using assms
  by (auto simp: process_and_display_chat_interaction_def Let_def render_def
        user_message_def split: prod.splits sum.splits option.splits)

theorem failed_assistant_call_keeps_user_message_witness:
  "fst (messages_create failing_client ''thread'' ''user'' ''Hello'' 0) =
     Inl (ExternalError ''service unavailable'') \<and>
   fst (process_and_display_chat_interaction ''Hello'' failing_client ''asst'' (Config_class Map.empty)
          (demo_state \<lparr>start_chat = Some True, thread_id = Some (Some ''thread''),
                       messages = Some []\<rparr>)) = Inl (ExternalError ''service unavailable'') \<and>
   session (snd (process_and_display_chat_interaction ''Hello'' failing_client ''asst''
          (Config_class Map.empty)
          (demo_state \<lparr>start_chat = Some True, thread_id = Some (Some ''thread''),
                       messages = Some []\<rparr>))) =
     \<lparr>start_chat = Some True, thread_id = Some (Some ''thread''),
      messages = Some [\<lparr>role = ''user'', content = ''Hello''\<rparr>]\<rparr>"
proof -
  let ?st = "demo_state \<lparr>start_chat = Some True, thread_id = Some (Some ''thread''),
                         messages = Some []\<rparr>"
  have a: "messages (session ?st) = Some []"
    and b: "thread_id (session ?st) = Some (Some ''thread'')"
    by (simp_all add: demo_state_def)
  have p: "fst (messages_create failing_client ''thread'' ''user'' ''Hello'' (world ?st)) =
             Inl (ExternalError ''service unavailable'')"
    by (simp add: failing_client_def demo_client_def)
  have w: "world ?st = 0" and s: "session ?st = \<lparr>start_chat = Some True,
             thread_id = Some (Some ''thread''), messages = Some []\<rparr>"
    by (simp_all add: demo_state_def)
  from failed_assistant_call_keeps_user_message
         [of ?st "[]" "''thread''" failing_client "''Hello''" "ExternalError ''service unavailable''",
          OF a b disjI1, OF p] p w s
  show ?thesis by simp
qed


text \<open>
  C3. A submission on a store whose \<open>thread_id\<close> is \<open>None\<close> (with a message log present):
  the handler shows the error banner and hands over to \<open>start_new_chat_session\<close>, and its
  outcome is the outcome of that call. When the service hands out a thread, the handler
  returns normally with that thread's identifier stored in \<open>thread_id\<close>, having called the
  service for nothing but the thread, and the log is empty. When the service raises
  instead, the error is the outcome and the log is the old log with the user message. In
  neither case does the log receive an assistant message.
\<close>

theorem submission_without_thread_recreates_thread:
  assumes "thread_id (session st) = Some None"
    and "messages (session st) = Some ms"
  shows "process_and_display_chat_interaction user_input c assistant cfg st =
           start_new_chat_session c
             (render (ErrorBanner ''Thread ID is None. Starting a new chat session.'')
               (render (ChatMessage ''user'' user_input)
                 (st\<lparr>session := (session st)\<lparr>messages := Some (ms @ [user_message user_input])\<rparr>\<rparr>))) \<and>
         (\<forall>thread w. threads_create c (world st) = (Inr thread, w) \<longrightarrow>
            fst (process_and_display_chat_interaction user_input c assistant cfg st) = Inr () \<and>
            thread_id (session (snd (process_and_display_chat_interaction user_input c assistant cfg st))) =
              Some (Some thread) \<and>
            messages (session (snd (process_and_display_chat_interaction user_input c assistant cfg st))) =
              Some [] \<and>
            world (snd (process_and_display_chat_interaction user_input c assistant cfg st)) = w) \<and>
         (\<forall>e w. threads_create c (world st) = (Inl e, w) \<longrightarrow>
            fst (process_and_display_chat_interaction user_input c assistant cfg st) = Inl e \<and>
            thread_id (session (snd (process_and_display_chat_interaction user_input c assistant cfg st))) =
              Some None \<and>
            messages (session (snd (process_and_display_chat_interaction user_input c assistant cfg st))) =
              Some (ms @ [\<lparr>role = ''user'', content = user_input\<rparr>]))"
  using assms
  by (auto simp: process_and_display_chat_interaction_def start_new_chat_session_def Let_def
        render_def user_message_def split: prod.splits sum.splits)

theorem submission_without_thread_recreates_thread_witness:
  "thread_id (session (demo_state (initialize_chat_variables empty_session))) = Some None \<and>
   messages (session (demo_state (initialize_chat_variables empty_session))) = Some [] \<and>
   threads_create demo_client (world (demo_state (initialize_chat_variables empty_session))) =
     (Inr ''thread'', 1) \<and>
   fst (process_and_display_chat_interaction ''Hello'' demo_client ''asst'' (Config_class Map.empty)
          (demo_state (initialize_chat_variables empty_session))) = Inr () \<and>
   thread_id (session (snd (process_and_display_chat_interaction ''Hello'' demo_client ''asst''
          (Config_class Map.empty) (demo_state (initialize_chat_variables empty_session))))) =
     Some (Some ''thread'') \<and>
   messages (session (snd (process_and_display_chat_interaction ''Hello'' demo_client ''asst''
          (Config_class Map.empty) (demo_state (initialize_chat_variables empty_session))))) =
     Some []"
proof -
  let ?st = "demo_state (initialize_chat_variables empty_session)"
  have a: "thread_id (session ?st) = Some None"
    and b: "messages (session ?st) = Some []"
    by (simp_all add: demo_state_def initialize_chat_variables_def empty_session_def)
  have t: "threads_create demo_client (world ?st) = (Inr ''thread'', 1)"
    by (simp add: demo_client_def demo_state_def)
  from submission_without_thread_recreates_thread
         [OF a b, of "''Hello''" demo_client "''asst''" "Config_class Map.empty"]
  have "fst (process_and_display_chat_interaction ''Hello'' demo_client ''asst''
               (Config_class Map.empty) ?st) = Inr () \<and>
        thread_id (session (snd (process_and_display_chat_interaction ''Hello'' demo_client ''asst''
               (Config_class Map.empty) ?st))) = Some (Some ''thread'') \<and>
        messages (session (snd (process_and_display_chat_interaction ''Hello'' demo_client ''asst''
               (Config_class Map.empty) ?st))) = Some []"
    using t by blast
  with a b t show ?thesis by blast
qed



subsection \<open>What the operations leave of the store\<close>

lemma display_loop_session: "session (display_chat_messages_loop ms st) = session st"
  by (induction ms arbitrary: st) (simp_all add: render_def)

lemma setup_session: "session (snd (setup_streamlit_ui env cfg st)) = session st"
  by (simp add: setup_streamlit_ui_def Let_def render_def apply_custom_css_def split: sum.splits)

lemma start_new_returns:
  assumes "start_new_chat_session c st = (Inr u, st')"
  shows "\<exists>t. thread_id (session st') = Some (Some t)"
  using assms
  by (auto simp: start_new_chat_session_def Let_def split: prod.splits sum.splits)

lemma start_new_raises:
  assumes "start_new_chat_session c st = (Inl e, st')"
  shows "session st' = (session st)\<lparr>start_chat := Some True\<rparr>"
  using assms
  by (auto simp: start_new_chat_session_def Let_def split: prod.splits sum.splits)

lemma start_new_start_chat: "start_chat (session (snd (start_new_chat_session c st))) = Some True"
  by (auto simp: start_new_chat_session_def Let_def split: prod.splits sum.splits)

lemma process_thread_kept:
  assumes "thread_id (session st) = Some (Some t)"
  shows "thread_id (session (snd (process_and_display_chat_interaction u c a cfg st))) = Some (Some t)"
  using assms
  by (auto simp: process_and_display_chat_interaction_def Let_def render_def
        split: prod.splits sum.splits option.splits)

lemma handle_thread_kept:
  assumes "thread_id (session st) = Some (Some t)"
  shows "thread_id (session (snd (handle_chat_interaction c a cfg inp st))) = Some (Some t)"
  using assms
  by (auto simp: handle_chat_interaction_def Let_def render_def display_chat_messages_def
        display_loop_session process_thread_kept split: prod.splits sum.splits option.splits)

lemma process_frame:
  "start_chat (session (snd (process_and_display_chat_interaction u c a cfg st))) = Some True \<or>
   (start_chat (session (snd (process_and_display_chat_interaction u c a cfg st))) =
      start_chat (session st) \<and>
    thread_id (session (snd (process_and_display_chat_interaction u c a cfg st))) =
      thread_id (session st))"
  by (auto simp: process_and_display_chat_interaction_def Let_def render_def start_new_start_chat
        split: prod.splits sum.splits option.splits)

text \<open>
  A run of the script either leaves the store alone (the client could not be set up, the
  page set-up raised, or the user is not logged in), or it initialises the store, starts a
  new chat session and, when that returned, handles the chat.
\<close>

lemma main_cases:
  obtains (unchanged) "session (snd (main env cfg st)) = session st"
  | (started) c a st5 where
      "session st5 = initialize_chat_variables (session st)"
      "main env cfg st =
         (case start_new_chat_session c st5 of
            (Inl e, st6) \<Rightarrow> (Inl e, st6)
          | (Inr u, st6) \<Rightarrow> handle_chat_interaction c a cfg (st_chat_input env) st6)"
proof (cases "initialize_openai_client env cfg (world st)")
  case (Pair r w)
  show ?thesis
  proof (cases r)
    case (Inl e)
    with Pair have "session (snd (main env cfg st)) = session st" by (simp add: main_def)
    then show ?thesis by (rule unchanged)
  next
    case (Inr ca)
    obtain c a where ca: "ca = (c, a)" by (cases ca)
    obtain r1 st1 where s1: "setup_streamlit_ui env cfg (st\<lparr>world := w\<rparr>) = (r1, st1)"
      by (cases "setup_streamlit_ui env cfg (st\<lparr>world := w\<rparr>)")
    have sess1: "session st1 = session st"
      using setup_session [of env cfg "st\<lparr>world := w\<rparr>"] s1 by simp
    show ?thesis
    proof (cases r1)
      case (Inl e)
      with Pair Inr ca s1 sess1 have "session (snd (main env cfg st)) = session st"
        by (simp add: main_def)
      then show ?thesis by (rule unchanged)
    next
      case u: (Inr u)
      show ?thesis
      proof (cases "authenticator_login env")
        case (Inl e)
        with Pair Inr ca s1 sess1 u have "session (snd (main env cfg st)) = session st"
          by (simp add: main_def)
        then show ?thesis by (rule unchanged)
      next
        case login: (Inr authentication_status)
        show ?thesis
        proof (cases "authentication_status = Some True")
          case False
          with Pair Inr ca s1 sess1 u login have "session (snd (main env cfg st)) = session st"
            by (simp add: main_def Let_def render_def)
          then show ?thesis by (rule unchanged)
        next
          case True
          let ?st5 = "(render LogoutButton (render SidebarTitle st1))
                        \<lparr>session := initialize_chat_variables (session st)\<rparr>"
          have "session ?st5 = initialize_chat_variables (session st)" by simp
          moreover have "main env cfg st =
                     (case start_new_chat_session c ?st5 of
                        (Inl e, st6) \<Rightarrow> (Inl e, st6)
                      | (Inr u, st6) \<Rightarrow> handle_chat_interaction c a cfg (st_chat_input env) st6)"
            using Pair Inr ca s1 sess1 u login True by (simp add: main_def Let_def render_def)
          ultimately show ?thesis by (rule started)
        qed
      qed
    qed
  qed
qed

subsection \<open>A non-empty log has a thread\<close>

lemma log_has_thread_initialize:
  "log_has_thread s \<Longrightarrow> log_has_thread (initialize_chat_variables s)"
  by (auto simp: log_has_thread_def initialize_chat_variables_def split: option.splits)

lemma log_has_thread_main:
  assumes "log_has_thread (session st)"
  shows "log_has_thread (session (snd (main env cfg st)))"
proof (cases env cfg st rule: main_cases)
  case unchanged
  with assms show ?thesis by simp
next
  case (started c a st5)
  obtain r6 st6 where s6: "start_new_chat_session c st5 = (r6, st6)"
    by (cases "start_new_chat_session c st5")
  show ?thesis
  proof (cases r6)
    case (Inl e)
    with s6 started(1)
    have "session st6 = (initialize_chat_variables (session st))\<lparr>start_chat := Some True\<rparr>"
      using start_new_raises [of c st5 e st6] by simp
    moreover have "log_has_thread (initialize_chat_variables (session st))"
      using assms by (rule log_has_thread_initialize)
    ultimately have "log_has_thread (session st6)" by (simp add: log_has_thread_def)
    with started(2) s6 Inl show ?thesis by simp
  next
    case (Inr v)
    with s6 obtain t where "thread_id (session st6) = Some (Some t)"
      using start_new_returns [of c st5 v st6] by auto
    then have "thread_id (session (snd (handle_chat_interaction c a cfg (st_chat_input env) st6))) =
                 Some (Some t)"
      by (rule handle_thread_kept)
    then have "log_has_thread (session (snd (handle_chat_interaction c a cfg (st_chat_input env) st6)))"
      by (simp add: log_has_thread_def)
    with started(2) s6 Inr show ?thesis by simp
  qed
qed

lemma reachable_log_has_thread: "reachable st \<Longrightarrow> log_has_thread (session st)"
proof (induction rule: reachable.induct)
  case (first_load st)
  then show ?case by (simp add: log_has_thread_def empty_session_def)
next
  case (rerun st env cfg w)
  then have "log_has_thread (session (st\<lparr>ui := [], world := w\<rparr>))" by simp
  then show ?case by (rule log_has_thread_main)
qed

lemma demo_first_turn:
  "main (demo_environment (Some ''Hi'')) (Config_class demo_getenv) (demo_state empty_session) =
     (Inr (),
      \<lparr>session = \<lparr>start_chat = Some True, thread_id = Some (Some ''thread''),
                  messages = Some [\<lparr>role = ''user'', content = ''Hi''\<rparr>,
                                   \<lparr>role = ''assistant'', content = ''Hello there''\<rparr>]\<rparr>,
       ui = [PageConfig None, CustomCss, Heading, SidebarTitle, LogoutButton, ChatInput None,
             ChatMessage ''user'' ''Hi'', ChatMessage ''assistant'' ''Hello there''],
       world = 1\<rparr>)"
  by (simp add: main_def demo_environment_def demo_state_def demo_client_def Config_class_def
        demo_getenv_def initialize_openai_client_def setup_streamlit_ui_def apply_custom_css_def
        render_def initialize_chat_variables_def empty_session_def start_new_chat_session_def
        handle_chat_interaction_def display_chat_messages_def
        process_and_display_chat_interaction_def user_message_def assistant_message_def Let_def)

text \<open>
  C2. In every state that the script leaves behind, from the first page load on, a store
  whose \<open>start_chat\<close> is true and whose log is non-empty holds a thread identifier. And a
  submission handled on a store whose \<open>thread_id\<close> is \<open>None\<close> does not go on to the
  assistant: what the handler does after recording and showing the input is the error
  banner and \<open>start_new_chat_session\<close>, and the only call the service receives is the one
  that creates a thread.
\<close>

theorem thread_present_while_chatting:
  "(reachable st \<longrightarrow> start_chat (session st) = Some True \<longrightarrow>
      messages (session st) = Some ms \<longrightarrow> ms \<noteq> [] \<longrightarrow>
      (\<exists>t. thread_id (session st) = Some (Some t))) \<and>
   (thread_id (session st') = Some None \<longrightarrow> messages (session st') = Some ms' \<longrightarrow>
      process_and_display_chat_interaction user_input c assistant cfg st' =
        start_new_chat_session c
          (render (ErrorBanner ''Thread ID is None. Starting a new chat session.'')
            (render (ChatMessage ''user'' user_input)
              (st'\<lparr>session := (session st')\<lparr>messages := Some (ms' @ [user_message user_input])\<rparr>\<rparr>))) \<and>
      world (snd (process_and_display_chat_interaction user_input c assistant cfg st')) =
        snd (threads_create c (world st')))"
proof (intro conjI impI)
  assume "reachable st" and "messages (session st) = Some ms" and "ms \<noteq> []"
  then show "\<exists>t. thread_id (session st) = Some (Some t)"
    using reachable_log_has_thread [of st] by (simp add: log_has_thread_def)
next
  assume "thread_id (session st') = Some None" and "messages (session st') = Some ms'"
  then show "process_and_display_chat_interaction user_input c assistant cfg st' =
        start_new_chat_session c
          (render (ErrorBanner ''Thread ID is None. Starting a new chat session.'')
            (render (ChatMessage ''user'' user_input)
              (st'\<lparr>session := (session st')\<lparr>messages := Some (ms' @ [user_message user_input])\<rparr>\<rparr>)))"
    by (simp add: process_and_display_chat_interaction_def Let_def render_def)
next
  assume "thread_id (session st') = Some None" and "messages (session st') = Some ms'"
  then show "world (snd (process_and_display_chat_interaction user_input c assistant cfg st')) =
        snd (threads_create c (world st'))"
    by (auto simp: process_and_display_chat_interaction_def start_new_chat_session_def Let_def
          render_def split: prod.splits sum.splits)
qed

theorem thread_present_while_chatting_witness:
  "reachable (snd (main (demo_environment (Some ''Hi'')) (Config_class demo_getenv)
                     (demo_state empty_session))) \<and>
   start_chat (session (snd (main (demo_environment (Some ''Hi'')) (Config_class demo_getenv)
                     (demo_state empty_session)))) = Some True \<and>
   messages (session (snd (main (demo_environment (Some ''Hi'')) (Config_class demo_getenv)
                     (demo_state empty_session)))) =
     Some [\<lparr>role = ''user'', content = ''Hi''\<rparr>, \<lparr>role = ''assistant'', content = ''Hello there''\<rparr>] \<and>
   (\<exists>t. thread_id (session (snd (main (demo_environment (Some ''Hi'')) (Config_class demo_getenv)
                     (demo_state empty_session)))) = Some (Some t)) \<and>
   thread_id (session (demo_state (initialize_chat_variables empty_session))) = Some None \<and>
   messages (session (demo_state (initialize_chat_variables empty_session))) = Some [] \<and>
   world (snd (process_and_display_chat_interaction ''Hello'' demo_client ''asst''
                 (Config_class demo_getenv) (demo_state (initialize_chat_variables empty_session)))) =
     snd (threads_create demo_client (world (demo_state (initialize_chat_variables empty_session))))"
proof -
  let ?st = "snd (main (demo_environment (Some ''Hi'')) (Config_class demo_getenv)
                    (demo_state empty_session))"
  let ?st' = "demo_state (initialize_chat_variables empty_session)"
  let ?ms = "[\<lparr>role = ''user'', content = ''Hi''\<rparr>, \<lparr>role = ''assistant'', content = ''Hello there''\<rparr>]"
  have "reachable (demo_state empty_session)"
    by (rule first_load) (simp add: demo_state_def)
  then have "reachable (snd (main (demo_environment (Some ''Hi'')) (Config_class demo_getenv)
                               ((demo_state empty_session)\<lparr>ui := [], world := 0\<rparr>)))"
    by (rule rerun)
  then have r: "reachable ?st" by (simp add: demo_state_def)
  have s: "start_chat (session ?st) = Some True" and m: "messages (session ?st) = Some ?ms"
    by (simp_all add: demo_first_turn)
  have n: "?ms \<noteq> []" by simp
  have a: "thread_id (session ?st') = Some None" and b: "messages (session ?st') = Some []"
    by (simp_all add: demo_state_def initialize_chat_variables_def empty_session_def)
  from thread_present_while_chatting
         [of ?st ?ms ?st' "[]" "''Hello''" demo_client "''asst''" "Config_class demo_getenv"]
       r s m n a b
  show ?thesis by blast
qed


subsection \<open>An idle store has no thread\<close>

lemma idle_inv_initialize: "idle_inv s \<Longrightarrow> idle_inv (initialize_chat_variables s)"
  by (auto simp: idle_inv_def initialize_chat_variables_def)

lemma idle_inv_reset: "idle_inv (reset_chat_session s)"
  by (simp add: idle_inv_def reset_chat_session_def)

lemma idle_inv_start: "idle_inv (session (snd (start_new_chat_session c st)))"
  by (simp add: idle_inv_def start_new_start_chat)

lemma idle_inv_process:
  "idle_inv (session st) \<Longrightarrow>
     idle_inv (session (snd (process_and_display_chat_interaction u c a cfg st)))"
  using process_frame [of u c a cfg st] by (auto simp: idle_inv_def)

lemma idle_inv_handle:
  "idle_inv (session st) \<Longrightarrow> idle_inv (session (snd (handle_chat_interaction c a cfg inp st)))"
  by (auto simp: handle_chat_interaction_def Let_def render_def display_chat_messages_def
        display_loop_session idle_inv_process split: prod.splits sum.splits option.splits)

lemma idle_inv_main:
  assumes "idle_inv (session st)"
  shows "idle_inv (session (snd (main env cfg st)))"
proof (cases env cfg st rule: main_cases)
  case unchanged
  with assms show ?thesis by simp
next
  case (started c a st5)
  obtain r6 st6 where s6: "start_new_chat_session c st5 = (r6, st6)"
    by (cases "start_new_chat_session c st5")
  have st6: "idle_inv (session st6)"
    using idle_inv_start [of c st5] s6 by simp
  show ?thesis
  proof (cases r6)
    case (Inl e)
    with started(2) s6 st6 show ?thesis by simp
  next
    case (Inr v)
    with started(2) s6 idle_inv_handle [OF st6] show ?thesis by simp
  qed
qed

lemma reachable_ops_idle_inv: "reachable_ops st \<Longrightarrow> idle_inv (session st)"
proof (induction rule: reachable_ops.induct)
  case (ops_empty st)
  then show ?case by (simp add: idle_inv_def empty_session_def)
next
  case (ops_initialize st)
  then show ?case by (simp add: idle_inv_initialize)
next
  case (ops_reset st)
  then show ?case by (simp add: idle_inv_reset)
next
  case (ops_start st c)
  then show ?case by (simp add: idle_inv_start)
next
  case (ops_submit st user_input c assistant cfg)
  then show ?case by (simp add: idle_inv_process)
next
  case (ops_handle st c assistant cfg chat_input)
  then show ?case by (simp add: idle_inv_handle)
next
  case (ops_main st env cfg)
  then show ?case by (simp add: idle_inv_main)
next
  case (ops_between st page w)
  then show ?case by simp
qed

lemma idle_inv_initial_reset_invariant: "idle_inv s \<Longrightarrow> initial_reset_invariant s"
  by (auto simp: idle_inv_def initial_reset_invariant_def)

lemma reachable_reachable_ops: "reachable st \<Longrightarrow> reachable_ops st"
proof (induction rule: reachable.induct)
  case (first_load st)
  then show ?case by (rule ops_empty)
next
  case (rerun st env cfg w)
  from rerun.IH have "reachable_ops (st\<lparr>ui := [], world := w\<rparr>)" by (rule ops_between)
  then show ?case by (rule ops_main)
qed

text \<open>
  C9. In every state that the operations on the store can produce from an empty store, in
  whatever order they are applied (initialisation, reset, start of a new chat, handling of
  a submission, a whole run of the script), a store whose log is empty and whose
  \<open>start_chat\<close> is false has \<open>thread_id\<close> \<open>None\<close>. The store of initial defaults is such a
  state, and applying any operation to such a state gives a store with the same property.
\<close>

theorem idle_store_has_null_thread:
  assumes "reachable_ops st"
  shows "initial_reset_invariant (session st) \<and>
         initial_reset_invariant (initialize_chat_variables (session st)) \<and>
         initial_reset_invariant (reset_chat_session (session st)) \<and>
         initial_reset_invariant (session (snd (start_new_chat_session c st))) \<and>
         initial_reset_invariant
           (session (snd (process_and_display_chat_interaction user_input c assistant cfg st)))"
proof -
  have inv: "idle_inv (session st)" using assms by (rule reachable_ops_idle_inv)
  show ?thesis
    by (intro conjI idle_inv_initial_reset_invariant inv idle_inv_initialize idle_inv_reset
          idle_inv_start idle_inv_process)
qed

theorem idle_store_has_null_thread_witness:
  "reachable_ops (demo_state (initialize_chat_variables empty_session)) \<and>
   start_chat (session (demo_state (initialize_chat_variables empty_session))) = Some False \<and>
   messages (session (demo_state (initialize_chat_variables empty_session))) = Some [] \<and>
   thread_id (session (demo_state (initialize_chat_variables empty_session))) = Some None \<and>
   initial_reset_invariant (session (demo_state (initialize_chat_variables empty_session))) \<and>
   initial_reset_invariant
     (reset_chat_session (session (demo_state (initialize_chat_variables empty_session)))) \<and>
   start_chat (reset_chat_session (session (demo_state (initialize_chat_variables empty_session)))) =
     Some False \<and>
   messages (reset_chat_session (session (demo_state (initialize_chat_variables empty_session)))) =
     Some []"
proof -
  let ?st = "demo_state (initialize_chat_variables empty_session)"
  have "reachable_ops (demo_state empty_session)"
    by (rule ops_empty) (simp add: demo_state_def)
  then have "reachable_ops ((demo_state empty_session)
               \<lparr>session := initialize_chat_variables (session (demo_state empty_session))\<rparr>)"
    by (rule ops_initialize)
  then have r: "reachable_ops ?st"
    by (simp add: demo_state_def)
  have i: "initial_reset_invariant (session ?st) \<and>
           initial_reset_invariant (reset_chat_session (session ?st))"
    using idle_store_has_null_thread [OF r] by blast
  have v: "start_chat (session ?st) = Some False \<and> messages (session ?st) = Some [] \<and>
           thread_id (session ?st) = Some None \<and>
           start_chat (reset_chat_session (session ?st)) = Some False \<and>
           messages (reset_chat_session (session ?st)) = Some []"
    by (simp add: demo_state_def initialize_chat_variables_def empty_session_def
          reset_chat_session_def)
  from r i v show ?thesis by blast
qed


subsection \<open>Renders of the page\<close>

lemma demo_rerender:
  "main (demo_environment None) (Config_class demo_getenv)
     \<lparr>session = \<lparr>start_chat = Some True, thread_id = Some (Some ''thread''),
                 messages = Some [\<lparr>role = ''user'', content = ''Hi''\<rparr>,
                                  \<lparr>role = ''assistant'', content = ''Hello there''\<rparr>]\<rparr>,
      ui = [], world = Suc 0\<rparr> =
     (Inr (),
      \<lparr>session = \<lparr>start_chat = Some True, thread_id = Some (Some ''thread+''),
                  messages = Some []\<rparr>,
       ui = [PageConfig None, CustomCss, Heading, SidebarTitle, LogoutButton, ChatInput None],
       world = 2\<rparr>)"
  by (simp add: main_def demo_environment_def demo_client_def Config_class_def
        demo_getenv_def initialize_openai_client_def setup_streamlit_ui_def apply_custom_css_def
        render_def initialize_chat_variables_def start_new_chat_session_def
        handle_chat_interaction_def display_chat_messages_def Let_def)

text \<open>
  C1. The specification has \<open>thread_id\<close> and \<open>messages\<close> persist across the renders of a
  logged-in session, a render that is neither a logout nor a new-chat action leaving them
  as they were. The script does otherwise. After a first render with the submission \<open>Hi\<close>
  the store holds the thread \<open>thread\<close> and the two messages of the turn. The next render of
  the same logged-in session, with no submission and no logout, calls
  \<open>start_new_chat_session\<close> again (line 183): the store then holds another thread and an
  empty log. The handling of a submission is itself such a render, so the history that
  \<open>display_chat_messages\<close> replays is always empty, and what \<open>setdefault\<close> preserves in
  \<open>initialize_chat_variables\<close> is overwritten by the next statement.
\<close>

theorem rerender_replaces_thread_and_clears_log:
  "session (snd (main (demo_environment (Some ''Hi'')) (Config_class demo_getenv)
                   (demo_state empty_session))) =
     \<lparr>start_chat = Some True, thread_id = Some (Some ''thread''),
      messages = Some [\<lparr>role = ''user'', content = ''Hi''\<rparr>,
                       \<lparr>role = ''assistant'', content = ''Hello there''\<rparr>]\<rparr> \<and>
   session (snd (main (demo_environment None) (Config_class demo_getenv)
                   ((snd (main (demo_environment (Some ''Hi'')) (Config_class demo_getenv)
                            (demo_state empty_session)))\<lparr>ui := []\<rparr>))) =
     \<lparr>start_chat = Some True, thread_id = Some (Some ''thread+''), messages = Some []\<rparr>"
  by (simp add: demo_first_turn demo_rerender)

text \<open>
  C8. The specification has a missing configuration value stop the program at startup
  with a descriptive error. It does not: with an environment that sets neither the page title,
  nor the prompt, nor the model, nor the instructions, \<open>Config\<close> holds \<open>None\<close> for them and a
  whole turn runs to its end, with \<open>None\<close> as the page title and as the prompt of the input
  box.
\<close>

theorem missing_configuration_is_not_an_error:
  "PAGE_TITLE (Config_class demo_getenv) = None \<and>
   USER_PROMPT (Config_class demo_getenv) = None \<and>
   OPENAI_MODEL (Config_class demo_getenv) = None \<and>
   INSTRUCTIONS (Config_class demo_getenv) = None \<and>
   fst (main (demo_environment (Some ''Hi'')) (Config_class demo_getenv) (demo_state empty_session)) =
     Inr () \<and>
   ui (snd (main (demo_environment (Some ''Hi'')) (Config_class demo_getenv) (demo_state empty_session))) =
     [PageConfig None, CustomCss, Heading, SidebarTitle, LogoutButton, ChatInput None,
      ChatMessage ''user'' ''Hi'', ChatMessage ''assistant'' ''Hello there'']"
  by (simp add: demo_first_turn) (simp add: Config_class_def demo_getenv_def)

subsection \<open>Where the errors of a run come from\<close>

lemma display_loop_world: "world (display_chat_messages_loop ms st) = world st"
  by (induction ms arbitrary: st) (simp_all add: render_def)

lemma start_new_raises_from:
  assumes "start_new_chat_session c st = (Inl e, st')"
  shows "fst (threads_create c (world st)) = Inl e"
  using assms
  by (auto simp: start_new_chat_session_def Let_def split: prod.splits sum.splits)

lemma start_new_returns_with:
  assumes "start_new_chat_session c st = (Inr u, st')"
  shows "\<exists>thread w. threads_create c (world st) = (Inr thread, w) \<and>
           thread_id (session st') = Some (Some thread) \<and>
           messages (session st') = Some [] \<and>
           start_chat (session st') = Some True \<and> world st' = w"
  using assms
  by (auto simp: start_new_chat_session_def Let_def split: prod.splits sum.splits)

lemma process_raises_from:
  assumes "messages (session st) = Some ms"
    and "thread_id (session st) = Some (Some t)"
    and "fst (process_and_display_chat_interaction u c a cfg st) = Inl e"
  shows "fst (messages_create c t ''user'' u (world st)) = Inl e \<or>
         (\<exists>w1. messages_create c t ''user'' u (world st) = (Inr (), w1) \<and>
            (fst (create_and_stream c t a (OPENAI_MODEL cfg) (INSTRUCTIONS cfg) w1) = Inl e \<or>
             (\<exists>text_deltas.
                fst (create_and_stream c t a (OPENAI_MODEL cfg) (INSTRUCTIONS cfg) w1) =
                  Inr (text_deltas, Some e))))"
  using assms
  by (auto simp: process_and_display_chat_interaction_def Let_def render_def
        split: prod.splits sum.splits option.splits)

lemma handle_raises_from:
  assumes "messages (session st) = Some ms"
    and "thread_id (session st) = Some (Some t)"
    and "fst (handle_chat_interaction c a cfg inp st) = Inl e"
  shows "\<exists>u. inp = Some u \<and>
          (fst (messages_create c t ''user'' u (world st)) = Inl e \<or>
           (\<exists>w1. messages_create c t ''user'' u (world st) = (Inr (), w1) \<and>
              (fst (create_and_stream c t a (OPENAI_MODEL cfg) (INSTRUCTIONS cfg) w1) = Inl e \<or>
               (\<exists>text_deltas.
                  fst (create_and_stream c t a (OPENAI_MODEL cfg) (INSTRUCTIONS cfg) w1) =
                    Inr (text_deltas, Some e)))))"
proof (cases "start_chat (session st) = Some True")
  case False
  with assms(3) show ?thesis by (simp add: handle_chat_interaction_def)
next
  case True
  let ?st2 = "render (ChatInput (USER_PROMPT cfg)) (display_chat_messages_loop ms st)"
  have s2: "messages (session ?st2) = Some ms" "thread_id (session ?st2) = Some (Some t)"
    and w2: "world ?st2 = world st"
    using assms(1,2) by (simp_all add: render_def display_loop_session display_loop_world)
  show ?thesis
  proof (cases inp)
    case None
    with True assms show ?thesis
      by (simp add: handle_chat_interaction_def display_chat_messages_def Let_def)
  next
    case (Some u)
    show ?thesis
    proof (cases "u = []")
      case True
      with \<open>start_chat (session st) = Some True\<close> Some assms show ?thesis
        by (simp add: handle_chat_interaction_def display_chat_messages_def Let_def)
    next
      case False
      with True Some assms
      have "fst (process_and_display_chat_interaction u c a cfg ?st2) = Inl e"
        by (simp add: handle_chat_interaction_def display_chat_messages_def Let_def)
      from process_raises_from [OF s2 this] Some show ?thesis by (simp add: w2)
    qed
  qed
qed

lemma main_raises_from:
  assumes "fst (main env cfg st) = Inl e"
  shows "OpenAI env (API_KEY cfg) = Inl e \<or>
         os_path_isfile env (LOGO cfg) = Inl e \<or>
         authenticator_login env = Inl e \<or>
         (\<exists>c. OpenAI env (API_KEY cfg) = Inr c \<and>
            (fst (assistants_retrieve c (ASSISTANT_KEY cfg) (world st)) = Inl e \<or>
             (\<exists>assistant w1.
                assistants_retrieve c (ASSISTANT_KEY cfg) (world st) = (Inr assistant, w1) \<and>
                (fst (threads_create c w1) = Inl e \<or>
                 (\<exists>thread w2 u.
                    threads_create c w1 = (Inr thread, w2) \<and> st_chat_input env = Some u \<and>
                    (fst (messages_create c thread ''user'' u w2) = Inl e \<or>
                     (\<exists>w3. messages_create c thread ''user'' u w2 = (Inr (), w3) \<and>
                        (fst (create_and_stream c thread assistant (OPENAI_MODEL cfg)
                                (INSTRUCTIONS cfg) w3) = Inl e \<or>
                         (\<exists>text_deltas.
                            fst (create_and_stream c thread assistant (OPENAI_MODEL cfg)
                                   (INSTRUCTIONS cfg) w3) = Inr (text_deltas, Some e))))))))))"
proof (cases "OpenAI env (API_KEY cfg)")
  case (Inl e')
  with assms show ?thesis by (simp add: main_def initialize_openai_client_def)
next
  case c: (Inr c)
  obtain ra w1 where ret: "assistants_retrieve c (ASSISTANT_KEY cfg) (world st) = (ra, w1)"
    by (cases "assistants_retrieve c (ASSISTANT_KEY cfg) (world st)")
  show ?thesis
  proof (cases ra)
    case (Inl e')
    with assms c ret show ?thesis by (simp add: main_def initialize_openai_client_def)
  next
    case a: (Inr a)
    have ini: "initialize_openai_client env cfg (world st) = (Inr (c, a), w1)"
      using c ret a by (simp add: initialize_openai_client_def)
    show ?thesis
    proof (cases "os_path_isfile env (LOGO cfg)")
      case (Inl e')
      with assms ini show ?thesis
        by (simp add: main_def setup_streamlit_ui_def Let_def)
    next
      case f: (Inr is_file)
      obtain st1 where s1: "setup_streamlit_ui env cfg (st\<lparr>world := w1\<rparr>) = (Inr (), st1)"
        and w: "world st1 = w1" and se: "session st1 = session st"
        using f by (simp add: setup_streamlit_ui_def Let_def render_def apply_custom_css_def)
      show ?thesis
      proof (cases "authenticator_login env")
        case (Inl e')
        with assms ini s1 show ?thesis by (simp add: main_def)
      next
        case login: (Inr authentication_status)
        show ?thesis
        proof (cases "authentication_status = Some True")
          case False
          with assms ini s1 login show ?thesis by (simp add: main_def Let_def)
        next
          case True
          let ?st5 = "(render LogoutButton (render SidebarTitle st1))
                        \<lparr>session := initialize_chat_variables (session st1)\<rparr>"
          have w5: "world ?st5 = w1" using w by (simp add: render_def)
          have m: "main env cfg st =
                     (case start_new_chat_session c ?st5 of
                        (Inl e, st6) \<Rightarrow> (Inl e, st6)
                      | (Inr u, st6) \<Rightarrow> handle_chat_interaction c a cfg (st_chat_input env) st6)"
            using ini s1 login True by (simp add: main_def Let_def render_def)
          obtain r6 st6 where s6: "start_new_chat_session c ?st5 = (r6, st6)"
            by (cases "start_new_chat_session c ?st5")
          show ?thesis
          proof (cases r6)
            case (Inl e')
            with m s6 assms have "e' = e" by simp
            with Inl s6 have "fst (threads_create c w1) = Inl e"
              using start_new_raises_from [of c ?st5 e st6] w5 by simp
            with c ret a show ?thesis by simp
          next
            case (Inr v)
            with s6 obtain thread w2 where
              t: "threads_create c w1 = (Inr thread, w2)"
              and s: "thread_id (session st6) = Some (Some thread)" "messages (session st6) = Some []"
              and w6: "world st6 = w2"
              using start_new_returns_with [of c ?st5 v st6] w5 by auto
            from m s6 Inr assms
            have "fst (handle_chat_interaction c a cfg (st_chat_input env) st6) = Inl e" by simp
            from handle_raises_from [OF s(2) s(1) this] w6 t c ret a
            show ?thesis by auto
          qed
        qed
      qed
    qed
  qed
qed

text \<open>
  C8, as amended. The configuration is read without any check: each value is what the
  environment holds, \<open>None\<close> when the variable is not set, and it is handed on as read: the
  API key to the client constructor, the assistant key to the retrieval, the logo path to
  the file test, the page title and the prompt to the page, the model and the instructions
  to the streamed run. The script raises nothing of its own over a missing value: a run
  ends in an error only when one of the library or service calls raises it (the
  constructor, the retrieval, the file test, the login, the thread creation, the post, the
  streamed run with the model and instructions as read). When those calls succeed the run
  returns normally, without a submission and with one, and in the latter case the log
  holds the user message and the reply streamed by the run.
\<close>

theorem configuration_is_passed_on_unchecked:
  "(fst (main env (Config_class getenv) st) = Inl e \<longrightarrow>
      OpenAI env (getenv ''API_KEY'') = Inl e \<or>
      os_path_isfile env (getenv ''LOGO'') = Inl e \<or>
      authenticator_login env = Inl e \<or>
      (\<exists>c. OpenAI env (getenv ''API_KEY'') = Inr c \<and>
         (fst (assistants_retrieve c (getenv ''ASSISTANT_KEY'') (world st)) = Inl e \<or>
          (\<exists>assistant w1.
             assistants_retrieve c (getenv ''ASSISTANT_KEY'') (world st) = (Inr assistant, w1) \<and>
             (fst (threads_create c w1) = Inl e \<or>
              (\<exists>thread w2 u.
                 threads_create c w1 = (Inr thread, w2) \<and> st_chat_input env = Some u \<and>
                 (fst (messages_create c thread ''user'' u w2) = Inl e \<or>
                  (\<exists>w3. messages_create c thread ''user'' u w2 = (Inr (), w3) \<and>
                     (fst (create_and_stream c thread assistant (getenv ''OPENAI_MODEL'')
                             (getenv ''INSTRUCTIONS'') w3) = Inl e \<or>
                      (\<exists>text_deltas.
                         fst (create_and_stream c thread assistant (getenv ''OPENAI_MODEL'')
                                (getenv ''INSTRUCTIONS'') w3) = Inr (text_deltas, Some e))))))))))) \<and>
   (OpenAI env (getenv ''API_KEY'') = Inr c \<longrightarrow>
    assistants_retrieve c (getenv ''ASSISTANT_KEY'') (world st) = (Inr assistant, w1) \<longrightarrow>
    os_path_isfile env (getenv ''LOGO'') = Inr is_file \<longrightarrow>
    authenticator_login env = Inr (Some True) \<longrightarrow>
    threads_create c w1 = (Inr thread, w2) \<longrightarrow>
      (st_chat_input env = None \<longrightarrow>
         fst (main env (Config_class getenv) st) = Inr () \<and>
         ui (snd (main env (Config_class getenv) st)) =
           ui st @ [PageConfig (getenv ''PAGE_TITLE''), CustomCss] @
           (if is_file then [SidebarImage (getenv ''LOGO'')] else []) @
           [Heading, SidebarTitle, LogoutButton, ChatInput (getenv ''USER_PROMPT'')]) \<and>
      (st_chat_input env = Some user_input \<longrightarrow> user_input \<noteq> [] \<longrightarrow>
       messages_create c thread ''user'' user_input w2 = (Inr (), w3) \<longrightarrow>
       create_and_stream c thread assistant (getenv ''OPENAI_MODEL'') (getenv ''INSTRUCTIONS'') w3 =
         (Inr (text_deltas, None), w4) \<longrightarrow>
         fst (main env (Config_class getenv) st) = Inr () \<and>
         session (snd (main env (Config_class getenv) st)) =
           \<lparr>start_chat = Some True, thread_id = Some (Some thread),
            messages = Some [\<lparr>role = ''user'', content = user_input\<rparr>,
                             \<lparr>role = ''assistant'', content = concat text_deltas\<rparr>]\<rparr> \<and>
         ui (snd (main env (Config_class getenv) st)) =
           ui st @ [PageConfig (getenv ''PAGE_TITLE''), CustomCss] @
           (if is_file then [SidebarImage (getenv ''LOGO'')] else []) @
           [Heading, SidebarTitle, LogoutButton, ChatInput (getenv ''USER_PROMPT''),
            ChatMessage ''user'' user_input, ChatMessage ''assistant'' (concat text_deltas)] \<and>
         world (snd (main env (Config_class getenv) st)) = w4))"
proof (intro conjI impI)
  assume "fst (main env (Config_class getenv) st) = Inl e"
  from main_raises_from [OF this]
  show "OpenAI env (getenv ''API_KEY'') = Inl e \<or>
      os_path_isfile env (getenv ''LOGO'') = Inl e \<or>
      authenticator_login env = Inl e \<or>
      (\<exists>c. OpenAI env (getenv ''API_KEY'') = Inr c \<and>
         (fst (assistants_retrieve c (getenv ''ASSISTANT_KEY'') (world st)) = Inl e \<or>
          (\<exists>assistant w1.
             assistants_retrieve c (getenv ''ASSISTANT_KEY'') (world st) = (Inr assistant, w1) \<and>
             (fst (threads_create c w1) = Inl e \<or>
              (\<exists>thread w2 u.
                 threads_create c w1 = (Inr thread, w2) \<and> st_chat_input env = Some u \<and>
                 (fst (messages_create c thread ''user'' u w2) = Inl e \<or>
                  (\<exists>w3. messages_create c thread ''user'' u w2 = (Inr (), w3) \<and>
                     (fst (create_and_stream c thread assistant (getenv ''OPENAI_MODEL'')
                             (getenv ''INSTRUCTIONS'') w3) = Inl e \<or>
                      (\<exists>text_deltas.
                         fst (create_and_stream c thread assistant (getenv ''OPENAI_MODEL'')
                                (getenv ''INSTRUCTIONS'') w3) = Inr (text_deltas, Some e))))))))))"
    by (simp add: Config_class_def)
qed (simp_all add: main_def Config_class_def initialize_openai_client_def setup_streamlit_ui_def
        apply_custom_css_def render_def initialize_chat_variables_def start_new_chat_session_def
        handle_chat_interaction_def display_chat_messages_def
        process_and_display_chat_interaction_def user_message_def assistant_message_def Let_def)

theorem configuration_is_passed_on_unchecked_witness:
  "fst (main (failing_environment (Some ''Hi'')) (Config_class demo_getenv) (demo_state empty_session)) =
     Inl (ExternalError ''service unavailable'') \<and>
   OpenAI (failing_environment (Some ''Hi'')) (demo_getenv ''API_KEY'') = Inr failing_client \<and>
   fst (messages_create failing_client ''thread'' ''user'' ''Hi'' 1) =
     Inl (ExternalError ''service unavailable'') \<and>
   OpenAI (demo_environment (Some ''Hi'')) (demo_getenv ''API_KEY'') = Inr demo_client \<and>
   assistants_retrieve demo_client (demo_getenv ''ASSISTANT_KEY'') 0 = (Inr ''asst'', 0) \<and>
   os_path_isfile (demo_environment (Some ''Hi'')) (demo_getenv ''LOGO'') = Inr False \<and>
   authenticator_login (demo_environment (Some ''Hi'')) = Inr (Some True) \<and>
   threads_create demo_client 0 = (Inr ''thread'', 1) \<and>
   st_chat_input (demo_environment (Some ''Hi'')) = Some ''Hi'' \<and>
   messages_create demo_client ''thread'' ''user'' ''Hi'' 1 = (Inr (), 1) \<and>
   demo_getenv ''OPENAI_MODEL'' = None \<and> demo_getenv ''INSTRUCTIONS'' = None \<and>
   create_and_stream demo_client ''thread'' ''asst'' None None 1 =
     (Inr ([''Hello'', '' there''], None), 1) \<and>
   fst (main (demo_environment (Some ''Hi'')) (Config_class demo_getenv) (demo_state empty_session)) =
     Inr () \<and>
   session (snd (main (demo_environment (Some ''Hi'')) (Config_class demo_getenv)
                   (demo_state empty_session))) =
     \<lparr>start_chat = Some True, thread_id = Some (Some ''thread''),
      messages = Some [\<lparr>role = ''user'', content = ''Hi''\<rparr>,
                       \<lparr>role = ''assistant'', content = ''Hello there''\<rparr>]\<rparr> \<and>
   ui (snd (main (demo_environment (Some ''Hi'')) (Config_class demo_getenv)
              (demo_state empty_session))) =
     [PageConfig None, CustomCss, Heading, SidebarTitle, LogoutButton, ChatInput None,
      ChatMessage ''user'' ''Hi'', ChatMessage ''assistant'' ''Hello there'']"
proof -
  let ?env = "demo_environment (Some ''Hi'')"
  let ?st = "demo_state empty_session"
  have f: "fst (main (failing_environment (Some ''Hi'')) (Config_class demo_getenv) ?st) =
             Inl (ExternalError ''service unavailable'')"
    by (simp add: main_def failing_environment_def failing_client_def demo_environment_def
          demo_state_def demo_client_def Config_class_def demo_getenv_def
          initialize_openai_client_def setup_streamlit_ui_def apply_custom_css_def render_def
          initialize_chat_variables_def empty_session_def start_new_chat_session_def
          handle_chat_interaction_def display_chat_messages_def
          process_and_display_chat_interaction_def user_message_def Let_def)
  have fc: "OpenAI (failing_environment (Some ''Hi'')) (demo_getenv ''API_KEY'') = Inr failing_client"
    and fp: "fst (messages_create failing_client ''thread'' ''user'' ''Hi'' 1) =
               Inl (ExternalError ''service unavailable'')"
    by (simp_all add: failing_environment_def failing_client_def demo_environment_def demo_client_def)
  have a: "OpenAI ?env (demo_getenv ''API_KEY'') = Inr demo_client"
    and b: "os_path_isfile ?env (demo_getenv ''LOGO'') = Inr False"
    and l: "authenticator_login ?env = Inr (Some True)"
    and i: "st_chat_input ?env = Some ''Hi''"
    by (simp_all add: demo_environment_def)
  have r: "assistants_retrieve demo_client (demo_getenv ''ASSISTANT_KEY'') (world ?st) = (Inr ''asst'', 0)"
    and t: "threads_create demo_client 0 = (Inr ''thread'', 1)"
    and p: "messages_create demo_client ''thread'' ''user'' ''Hi'' 1 = (Inr (), 1)"
    and s: "create_and_stream demo_client ''thread'' ''asst'' (demo_getenv ''OPENAI_MODEL'')
              (demo_getenv ''INSTRUCTIONS'') 1 = (Inr ([''Hello'', '' there''], None), 1)"
    by (simp_all add: demo_client_def demo_state_def)
  have g: "demo_getenv ''PAGE_TITLE'' = None" "demo_getenv ''USER_PROMPT'' = None"
    "demo_getenv ''OPENAI_MODEL'' = None" "demo_getenv ''INSTRUCTIONS'' = None"
    by (simp_all add: demo_getenv_def)
  have w: "world ?st = 0" and u: "ui ?st = []"
    by (simp_all add: demo_state_def)
  have n: "''Hi'' \<noteq> []" by simp
  have "fst (main ?env (Config_class demo_getenv) ?st) = Inr () \<and>
        session (snd (main ?env (Config_class demo_getenv) ?st)) =
          \<lparr>start_chat = Some True, thread_id = Some (Some ''thread''),
           messages = Some [\<lparr>role = ''user'', content = ''Hi''\<rparr>,
                            \<lparr>role = ''assistant'', content = concat [''Hello'', '' there'']\<rparr>]\<rparr> \<and>
        ui (snd (main ?env (Config_class demo_getenv) ?st)) =
          ui ?st @ [PageConfig (demo_getenv ''PAGE_TITLE''), CustomCss] @
          (if False then [SidebarImage (demo_getenv ''LOGO'')] else []) @
          [Heading, SidebarTitle, LogoutButton, ChatInput (demo_getenv ''USER_PROMPT''),
           ChatMessage ''user'' ''Hi'', ChatMessage ''assistant'' (concat [''Hello'', '' there''])]"
    using configuration_is_passed_on_unchecked
            [where env = ?env and getenv = demo_getenv and st = ?st and c = demo_client
               and assistant = "''asst''" and ?w1.0 = 0 and is_file = False
               and thread = "''thread''" and ?w2.0 = 1 and user_input = "''Hi''" and ?w3.0 = 1
               and text_deltas = "[''Hello'', '' there'']" and ?w4.0 = 1]
          a r b l t i n p s
    by blast
  with f fc fp a r b l t i p s g w u show ?thesis by simp
qed

end
